theory Spec2Isabelle
  imports Main "HOL-Library.Word"
begin

section \<open>tgalloc: a type-generic allocation facade over a pluggable backend\<close>

text \<open>
  The library is a set of C macros (tgalloc.h, with the arity dispatch in
  __tgalloc_c99.h and __tgalloc_c23.h) and three static functions, the default
  backend.  The embedding follows the macro expansion: every macro is a definition
  of the same name (the leading underscore dropped), every preprocessor conditional
  a test on the predefined macros of the compiler, and every call of the backend
  goes through the three names \<open>TGA_ALLOC_A_S\<close>, \<open>TGA_REALLOC_A_S\<close> and
  \<open>TGA_FREE_A_S\<close> of the active binding.
\<close>

subsection \<open>Machine values\<close>

text \<open>
  \<open>size_t\<close> is an unsigned integer of \<open>w\<close> bits, a \<open>'w word\<close>: multiplication wraps
  around modulo \<open>2 ^ w\<close>, and \<open><\<close> is the unsigned order.  A pointer is an address of
  the same width; the null pointer is address 0.
\<close>

definition NULL :: "'w::len word" where
  "NULL = 0"

text \<open>
  An integer count that is not already a \<open>size_t\<close> (an \<open>int\<close>, say) is converted
  to \<open>size_t\<close> by the usual arithmetic conversions when it is multiplied with a
  \<open>sizeof\<close>: the result is the value modulo \<open>2 ^ w\<close>, also for a negative count.
\<close>

definition size_t_of_int :: "int \<Rightarrow> 'w::len word" where
  "size_t_of_int k = word_of_int k"

text \<open>
  What the compiler knows of a type: \<open>sizeof(T)\<close> and the alignment it reports for
  \<open>T\<close> (\<open>alignof(T)\<close>, or \<open>__alignof__(T)\<close> of GCC and Clang).
\<close>

record 'a ctype =
  sizeof :: 'a
  alignof :: 'a

text \<open>
  The predefined macros the header tests, and the type \<open>void*\<close> of the platform.
\<close>

record 'a compiler =
  STDC_VERSION :: "nat option"
  GNUC :: bool
  clang :: bool
  MSC_VER :: bool
  MSVC_LANG :: "nat option"
  void_ptr :: "'a ctype"

text \<open>\<open>defined(M) && M >= v\<close> for a macro that may be undefined.\<close>

definition defined_at_least :: "nat option \<Rightarrow> nat \<Rightarrow> bool" where
  "defined_at_least m v = (case m of None \<Rightarrow> False | Some x \<Rightarrow> v \<le> x)"

subsection \<open>Size and alignment of the pointee (tgalloc.h, lines 144 to 181)\<close>

text \<open>
  \<open>_tgalloc_typeof(x)\<close>: the type of the expression \<open>x\<close>, given here by its type
  \<open>T\<close>, where the compiler has a \<open>typeof\<close>; the fallback is the type \<open>void*\<close>,
  whatever \<open>x\<close> is.
\<close>

definition tgalloc_typeof :: "'a compiler \<Rightarrow> 'a ctype \<Rightarrow> 'a ctype" where
  "tgalloc_typeof cc T =
     (if defined_at_least (STDC_VERSION cc) 202000 then T
      else if GNUC cc \<or> clang cc then T
      else if MSC_VER cc \<and> defined_at_least (MSVC_LANG cc) 202000 then T
      else void_ptr cc)"

text \<open>
  \<open>_tgalloc_alignof_impl(T)\<close>: \<open>alignof(T)\<close> from C11 on, \<open>__alignof__(T)\<close> of GCC
  and Clang, and otherwise the smaller of \<open>sizeof(T)\<close> and \<open>sizeof(void*)\<close>.
\<close>

definition tgalloc_alignof_impl :: "'w::len word compiler \<Rightarrow> 'w word ctype \<Rightarrow> 'w word" where
  "tgalloc_alignof_impl cc T =
     (if defined_at_least (STDC_VERSION cc) 201112 then alignof T
      else if GNUC cc \<or> clang cc then alignof T
      else (if sizeof T < sizeof (void_ptr cc) then sizeof T else sizeof (void_ptr cc)))"

text \<open>
  In the three macros below \<open>T\<close> is the type of \<open>*(ptr)\<close>, the pointee of the
  macro's argument.
\<close>

definition tgalloc_alignof :: "'w::len word compiler \<Rightarrow> 'w word ctype \<Rightarrow> 'w word" where
  "tgalloc_alignof cc T = tgalloc_alignof_impl cc (tgalloc_typeof cc T)"

definition tgalloc_sizeof :: "'w::len word ctype \<Rightarrow> 'w word" where
  "tgalloc_sizeof T = sizeof T"

definition tgalloc_sizeof_n :: "'w::len word ctype \<Rightarrow> 'w word \<Rightarrow> 'w word" where
  "tgalloc_sizeof_n T n = tgalloc_sizeof T * n"

subsection \<open>The backend interface and the default backend (tgalloc.h, lines 47 to 140)\<close>

text \<open>
  The active binding: the instance handle \<open>TGA\<close> and the three functions.  A
  backend function works on the allocator's state \<open>'h\<close>; \<open>None\<close> is a call that does
  not return (undefined behaviour, an abort).
\<close>

record ('a, 'h) binding =
  TGA :: 'a
  TGA_ALLOC_A_S :: "'a \<Rightarrow> 'a \<Rightarrow> 'a \<Rightarrow> 'h \<Rightarrow> ('a \<times> 'h) option"
  TGA_REALLOC_A_S :: "'a \<Rightarrow> 'a \<Rightarrow> 'a \<Rightarrow> 'a \<Rightarrow> 'a \<Rightarrow> 'h \<Rightarrow> ('a \<times> 'h) option"
  TGA_FREE_A_S :: "'a \<Rightarrow> 'a \<Rightarrow> 'a \<Rightarrow> 'a \<Rightarrow> 'h \<Rightarrow> 'h option"

text \<open>
  The default backend calls \<open>malloc\<close>, \<open>realloc\<close> and \<open>free\<close> of the C library
  (stdlib.h), which is not part of the repository: the three primitives are
  parameters of the model.
\<close>

record ('a, 'h) libc =
  malloc :: "'a \<Rightarrow> 'h \<Rightarrow> ('a \<times> 'h) option"
  realloc :: "'a \<Rightarrow> 'a \<Rightarrow> 'h \<Rightarrow> ('a \<times> 'h) option"
  free :: "'a \<Rightarrow> 'h \<Rightarrow> 'h option"

definition tgalloc_dflt_alloc_aligned_sized ::
    "('a, 'h) libc \<Rightarrow> 'a \<Rightarrow> 'a \<Rightarrow> 'a \<Rightarrow> 'h \<Rightarrow> ('a \<times> 'h) option" where
  "tgalloc_dflt_alloc_aligned_sized lc self alignment sz = malloc lc sz"

definition tgalloc_dflt_realloc_aligned_sized ::
    "('a, 'h) libc \<Rightarrow> 'a \<Rightarrow> 'a \<Rightarrow> 'a \<Rightarrow> 'a \<Rightarrow> 'a \<Rightarrow> 'h \<Rightarrow> ('a \<times> 'h) option" where
  "tgalloc_dflt_realloc_aligned_sized lc self p alignment old_size new_size =
     realloc lc p new_size"

definition tgalloc_dflt_free_aligned_sized ::
    "('a, 'h) libc \<Rightarrow> 'a \<Rightarrow> 'a \<Rightarrow> 'a \<Rightarrow> 'a \<Rightarrow> 'h \<Rightarrow> 'h option" where
  "tgalloc_dflt_free_aligned_sized lc self p alignment sz = free lc p"

text \<open>The binding of lines 135 to 140 of tgalloc.h, in effect unless \<open>TGA\<close> is defined.\<close>

definition dflt_binding :: "('w::len word, 'h) libc \<Rightarrow> ('w word, 'h) binding" where
  "dflt_binding lc =
     \<lparr>TGA = NULL,
      TGA_ALLOC_A_S = tgalloc_dflt_alloc_aligned_sized lc,
      TGA_REALLOC_A_S = tgalloc_dflt_realloc_aligned_sized lc,
      TGA_FREE_A_S = tgalloc_dflt_free_aligned_sized lc\<rparr>"

subsection \<open>The program state\<close>

text \<open>
  The caller's pointer objects (\<open>mem\<close>: the address of a pointer variable to the
  pointer it holds), the allocator's state, and the calls made to the backend so far,
  with their arguments in the order of the C signatures.
\<close>

datatype 'a call =
    Call_alloc 'a 'a 'a
  | Call_realloc 'a 'a 'a 'a 'a
  | Call_free 'a 'a 'a 'a

record ('a, 'h) state =
  mem :: "'a \<rightharpoonup> 'a"
  heap :: 'h
  trace :: "'a call list"

datatype error = Ill_formed | Undefined_behaviour

text \<open>An lvalue of pointer type designates the pointer object at an address.\<close>

datatype 'a lvalue = Object_at 'a

fun address :: "'a lvalue \<Rightarrow> 'a" where
  "address (Object_at a) = a"

text \<open>\<open>*(pptr)\<close>: the object the pointer \<open>pptr\<close> points to.\<close>

definition deref :: "'a \<Rightarrow> 'a lvalue" where
  "deref pptr = Object_at pptr"

text \<open>Reading an lvalue; there is no object at a null or dangling address.\<close>

definition rvalue :: "'a lvalue \<Rightarrow> ('a, 'h) state \<Rightarrow> error + 'a" where
  "rvalue l st = (case mem st (address l) of None \<Rightarrow> Inl Undefined_behaviour | Some v \<Rightarrow> Inr v)"

text \<open>
  The assignment expression \<open>(l) = v\<close>: it stores \<open>v\<close> and its value is \<open>v\<close>.  The
  casts around the backend's result change the pointer's type, not its value.
\<close>

definition assign :: "'a lvalue \<Rightarrow> 'a \<Rightarrow> ('a, 'h) state \<Rightarrow> error + 'a \<times> ('a, 'h) state" where
  "assign l v st =
     (case mem st (address l) of
        None \<Rightarrow> Inl Undefined_behaviour
      | Some old \<Rightarrow> Inr (v, st\<lparr>mem := (mem st)(address l \<mapsto> v)\<rparr>))"

text \<open>The three call sites \<open>TGA_ALLOC_A_S(TGA, ...)\<close>, \<open>TGA_REALLOC_A_S(TGA, ...)\<close>, \<open>TGA_FREE_A_S(TGA, ...)\<close>.\<close>

definition call_alloc ::
    "('a, 'h) binding \<Rightarrow> 'a \<Rightarrow> 'a \<Rightarrow> ('a, 'h) state \<Rightarrow> error + 'a \<times> ('a, 'h) state" where
  "call_alloc b alignment sz st =
     (case TGA_ALLOC_A_S b (TGA b) alignment sz (heap st) of
        None \<Rightarrow> Inl Undefined_behaviour
      | Some (p, h) \<Rightarrow>
          Inr (p, st\<lparr>heap := h, trace := trace st @ [Call_alloc (TGA b) alignment sz]\<rparr>))"

definition call_realloc ::
    "('a, 'h) binding \<Rightarrow> 'a \<Rightarrow> 'a \<Rightarrow> 'a \<Rightarrow> 'a \<Rightarrow> ('a, 'h) state \<Rightarrow> error + 'a \<times> ('a, 'h) state" where
  "call_realloc b p alignment old_size new_size st =
     (case TGA_REALLOC_A_S b (TGA b) p alignment old_size new_size (heap st) of
        None \<Rightarrow> Inl Undefined_behaviour
      | Some (q, h) \<Rightarrow>
          Inr (q, st\<lparr>heap := h,
                     trace := trace st @ [Call_realloc (TGA b) p alignment old_size new_size]\<rparr>))"

definition call_free ::
    "('a, 'h) binding \<Rightarrow> 'a \<Rightarrow> 'a \<Rightarrow> 'a \<Rightarrow> ('a, 'h) state \<Rightarrow> error + ('a, 'h) state" where
  "call_free b p alignment sz st =
     (case TGA_FREE_A_S b (TGA b) p alignment sz (heap st) of
        None \<Rightarrow> Inl Undefined_behaviour
      | Some h \<Rightarrow> Inr (st\<lparr>heap := h, trace := trace st @ [Call_free (TGA b) p alignment sz]\<rparr>))"

subsection \<open>The helper macros (tgalloc.h, lines 183 to 195 and 228 to 229)\<close>

text \<open>
  \<open>ptr\<close> is the macro's argument, of type \<open>T*\<close>: an lvalue for the allocating
  macros, which assign to it, and a pointer value for the freeing ones.
\<close>

definition tgalloc_palloc1 ::
    "'w::len word compiler \<Rightarrow> ('w word, 'h) binding \<Rightarrow> 'w word ctype \<Rightarrow> 'w word lvalue \<Rightarrow>
     ('w word, 'h) state \<Rightarrow> error + 'w word \<times> ('w word, 'h) state" where
  "tgalloc_palloc1 cc b T ptr st =
     (case call_alloc b (tgalloc_alignof cc T) (tgalloc_sizeof T) st of
        Inl e \<Rightarrow> Inl e
      | Inr (p, st') \<Rightarrow> assign ptr p st')"

definition tgalloc_palloc2 ::
    "'w::len word compiler \<Rightarrow> ('w word, 'h) binding \<Rightarrow> 'w word ctype \<Rightarrow> 'w word lvalue \<Rightarrow>
     'w word \<Rightarrow> ('w word, 'h) state \<Rightarrow> error + 'w word \<times> ('w word, 'h) state" where
  "tgalloc_palloc2 cc b T ptr len st =
     (case call_alloc b (tgalloc_alignof cc T) (tgalloc_sizeof_n T len) st of
        Inl e \<Rightarrow> Inl e
      | Inr (p, st') \<Rightarrow> assign ptr p st')"

definition tgalloc_pfree1 ::
    "'w::len word compiler \<Rightarrow> ('w word, 'h) binding \<Rightarrow> 'w word ctype \<Rightarrow> 'w word \<Rightarrow>
     ('w word, 'h) state \<Rightarrow> error + ('w word, 'h) state" where
  "tgalloc_pfree1 cc b T ptr st =
     call_free b ptr (tgalloc_alignof cc T) (tgalloc_sizeof T) st"

definition tgalloc_pfree2 ::
    "'w::len word compiler \<Rightarrow> ('w word, 'h) binding \<Rightarrow> 'w word ctype \<Rightarrow> 'w word \<Rightarrow>
     'w word \<Rightarrow> ('w word, 'h) state \<Rightarrow> error + ('w word, 'h) state" where
  "tgalloc_pfree2 cc b T ptr len st =
     call_free b ptr (tgalloc_alignof cc T) (tgalloc_sizeof_n T len) st"

definition tgalloc_realloc2 ::
    "'w::len word compiler \<Rightarrow> ('w word, 'h) binding \<Rightarrow> 'w word ctype \<Rightarrow> 'w word \<Rightarrow>
     'w word \<Rightarrow> 'w word \<Rightarrow> ('w word, 'h) state \<Rightarrow> error + 'w word \<times> ('w word, 'h) state" where
  "tgalloc_realloc2 cc b T ptr old_len new_len st =
     call_realloc b ptr (tgalloc_alignof cc T)
       (tgalloc_sizeof_n T old_len) (tgalloc_sizeof_n T new_len) st"

subsection \<open>Arity dispatch (__tgalloc_c99.h and __tgalloc_c23.h)\<close>

text \<open>
  A macro argument is an expression: an lvalue of pointer type, or a value (a
  pointer, a count).  The selecting macros put the names of two helper macros behind
  the arguments and pick the name by position.
\<close>

datatype helper = Helper_palloc1 | Helper_palloc2 | Helper_pfree1 | Helper_pfree2

datatype 'a token = Lval "'a lvalue" | Rval 'a | Name helper

fun tgalloc_palloc_arg3 :: "'t list \<Rightarrow> 't option" where
  "tgalloc_palloc_arg3 (x1 # x2 # x3 # rest) = Some x3"
| "tgalloc_palloc_arg3 _ = None"

fun tgalloc_palloc_arg2 :: "'t list \<Rightarrow> 't option" where
  "tgalloc_palloc_arg2 (x1 # x2 # rest) = Some x2"
| "tgalloc_palloc_arg2 _ = None"

text \<open>
  __tgalloc_c99.h: \<open>palloc(...)\<close> and \<open>pfree(...)\<close> hand all their arguments to
  the selection.
\<close>

definition tgalloc_palloc_choose_c99 :: "'a token list \<Rightarrow> 'a token option" where
  "tgalloc_palloc_choose_c99 args =
     tgalloc_palloc_arg3 (args @ [Name Helper_palloc2, Name Helper_palloc1])"

definition tgalloc_pfree_choose_c99 :: "'a token list \<Rightarrow> 'a token option" where
  "tgalloc_pfree_choose_c99 args =
     tgalloc_palloc_arg3 (args @ [Name Helper_pfree2, Name Helper_pfree1])"

text \<open>
  __tgalloc_c23.h: \<open>palloc(ptr, ...)\<close> and \<open>pfree(ptr, ...)\<close> hand over the
  arguments after \<open>ptr\<close> only, the comma of \<open>__VA_OPT__\<close> being there when there are
  any.
\<close>

definition tgalloc_palloc_choose_c23 :: "'a token list \<Rightarrow> 'a token option" where
  "tgalloc_palloc_choose_c23 va =
     tgalloc_palloc_arg2 (va @ [Name Helper_palloc2, Name Helper_palloc1])"

definition tgalloc_pfree_choose_c23 :: "'a token list \<Rightarrow> 'a token option" where
  "tgalloc_pfree_choose_c23 va =
     tgalloc_palloc_arg2 (va @ [Name Helper_pfree2, Name Helper_pfree1])"

text \<open>
  The selected token applied to the argument list.  Anything but a helper macro with
  the number of arguments it is defined for does not compile.
\<close>

fun invoke_palloc ::
    "'w::len word compiler \<Rightarrow> ('w word, 'h) binding \<Rightarrow> 'w word ctype \<Rightarrow> 'w word token option \<Rightarrow>
     'w word token list \<Rightarrow> ('w word, 'h) state \<Rightarrow> error + 'w word \<times> ('w word, 'h) state" where
  "invoke_palloc cc b T (Some (Name Helper_palloc1)) [Lval ptr] st = tgalloc_palloc1 cc b T ptr st"
| "invoke_palloc cc b T (Some (Name Helper_palloc2)) [Lval ptr, Rval len] st =
     tgalloc_palloc2 cc b T ptr len st"
| "invoke_palloc cc b T chosen args st = Inl Ill_formed"

fun invoke_pfree ::
    "'w::len word compiler \<Rightarrow> ('w word, 'h) binding \<Rightarrow> 'w word ctype \<Rightarrow> 'w word token option \<Rightarrow>
     'w word token list \<Rightarrow> ('w word, 'h) state \<Rightarrow> error + ('w word, 'h) state" where
  "invoke_pfree cc b T (Some (Name Helper_pfree1)) [Rval ptr] st = tgalloc_pfree1 cc b T ptr st"
| "invoke_pfree cc b T (Some (Name Helper_pfree2)) [Rval ptr, Rval len] st =
     tgalloc_pfree2 cc b T ptr len st"
| "invoke_pfree cc b T chosen args st = Inl Ill_formed"

text \<open>
  Line 197 of tgalloc.h includes the C23 header when \<open>__STDC_VERSION__\<close> is at
  least 202000 and the C99 header otherwise.  \<open>va\<close> are the arguments after \<open>ptr\<close>.
\<close>

definition palloc ::
    "'w::len word compiler \<Rightarrow> ('w word, 'h) binding \<Rightarrow> 'w word ctype \<Rightarrow> 'w word lvalue \<Rightarrow>
     'w word list \<Rightarrow> ('w word, 'h) state \<Rightarrow> error + 'w word \<times> ('w word, 'h) state" where
  "palloc cc b T ptr va st =
     (if defined_at_least (STDC_VERSION cc) 202000
      then invoke_palloc cc b T (tgalloc_palloc_choose_c23 (map Rval va))
             (Lval ptr # map Rval va) st
      else invoke_palloc cc b T (tgalloc_palloc_choose_c99 (Lval ptr # map Rval va))
             (Lval ptr # map Rval va) st)"

definition pfree ::
    "'w::len word compiler \<Rightarrow> ('w word, 'h) binding \<Rightarrow> 'w word ctype \<Rightarrow> 'w word \<Rightarrow>
     'w word list \<Rightarrow> ('w word, 'h) state \<Rightarrow> error + ('w word, 'h) state" where
  "pfree cc b T ptr va st =
     (if defined_at_least (STDC_VERSION cc) 202000
      then invoke_pfree cc b T (tgalloc_pfree_choose_c23 (map Rval va))
             (Rval ptr # map Rval va) st
      else invoke_pfree cc b T (tgalloc_pfree_choose_c99 (Rval ptr # map Rval va))
             (Rval ptr # map Rval va) st)"

subsection \<open>Allocation and reallocation through a pointer to pointer (tgalloc.h, lines 213 and 243)\<close>

text \<open>\<open>pptr\<close> has type \<open>T**\<close>; \<open>T\<close> is the type of \<open>**(pptr)\<close>.\<close>

definition ppalloc ::
    "'w::len word compiler \<Rightarrow> ('w word, 'h) binding \<Rightarrow> 'w word ctype \<Rightarrow> 'w word \<Rightarrow>
     'w word list \<Rightarrow> ('w word, 'h) state \<Rightarrow> error + 'w word \<times> ('w word, 'h) state" where
  "ppalloc cc b T pptr va st = palloc cc b T (deref pptr) va st"

definition pprealloc ::
    "'w::len word compiler \<Rightarrow> ('w word, 'h) binding \<Rightarrow> 'w word ctype \<Rightarrow> 'w word \<Rightarrow>
     'w word \<Rightarrow> 'w word \<Rightarrow> ('w word, 'h) state \<Rightarrow> error + 'w word \<times> ('w word, 'h) state" where
  "pprealloc cc b T pptr old_len new_len st =
     (case rvalue (deref pptr) st of
        Inl e \<Rightarrow> Inl e
      | Inr p \<Rightarrow>
          (case tgalloc_realloc2 cc b T p old_len new_len st of
             Inl e \<Rightarrow> Inl e
           | Inr (q, st') \<Rightarrow> assign (deref pptr) q st'))"

subsection \<open>The test suite's counting allocator (tests/tgalloc_tests.c, lines 31 to 72)\<close>

record 'a TestAllocator =
  alloc_count :: 'a
  free_count :: 'a
  total_allocated :: 'a
  should_fail :: bool

text \<open>
  \<open>self\<close> points to the one object \<open>test_allocator\<close>, which the state of this
  backend holds next to the C library's heap.
\<close>

definition test_alloc ::
    "('w::len word, 'h) libc \<Rightarrow> 'w word \<Rightarrow> 'w word \<Rightarrow> 'w word \<Rightarrow>
     'w word TestAllocator \<times> 'h \<Rightarrow> ('w word \<times> 'w word TestAllocator \<times> 'h) option" where
  "test_alloc lc self alignment sz s =
     (case s of (ta, h) \<Rightarrow>
        if should_fail ta then Some (NULL, (ta, h))
        else (case malloc lc sz h of
                None \<Rightarrow> None
              | Some (p, h') \<Rightarrow>
                  Some (p, (ta\<lparr>alloc_count := alloc_count ta + 1,
                                total_allocated := total_allocated ta + sz\<rparr>, h'))))"

definition test_realloc ::
    "('w::len word, 'h) libc \<Rightarrow> 'w word \<Rightarrow> 'w word \<Rightarrow> 'w word \<Rightarrow> 'w word \<Rightarrow> 'w word \<Rightarrow>
     'w word TestAllocator \<times> 'h \<Rightarrow> ('w word \<times> 'w word TestAllocator \<times> 'h) option" where
  "test_realloc lc self p alignment old_size new_size s =
     (case s of (ta, h) \<Rightarrow>
        if should_fail ta then Some (NULL, (ta, h))
        else (case realloc lc p new_size h of
                None \<Rightarrow> None
              | Some (q, h') \<Rightarrow>
                  Some (q, (ta\<lparr>total_allocated := total_allocated ta - old_size + new_size\<rparr>, h'))))"

definition test_free ::
    "('w::len word, 'h) libc \<Rightarrow> 'w word \<Rightarrow> 'w word \<Rightarrow> 'w word \<Rightarrow> 'w word \<Rightarrow>
     'w word TestAllocator \<times> 'h \<Rightarrow> ('w word TestAllocator \<times> 'h) option" where
  "test_free lc self p alignment sz s =
     (case s of (ta, h) \<Rightarrow>
        if p = NULL then Some (ta, h)
        else (case free lc p h of
                None \<Rightarrow> None
              | Some h' \<Rightarrow>
                  Some (ta\<lparr>free_count := free_count ta + 1,
                           total_allocated := total_allocated ta - sz\<rparr>, h')))"

text \<open>The binding the tests establish, \<open>self\<close> being \<open>&test_allocator\<close>.\<close>

definition test_binding ::
    "('w::len word, 'h) libc \<Rightarrow> 'w word \<Rightarrow> ('w word, 'w word TestAllocator \<times> 'h) binding" where
  "test_binding lc self =
     \<lparr>TGA = self,
      TGA_ALLOC_A_S = test_alloc lc,
      TGA_REALLOC_A_S = test_realloc lc,
      TGA_FREE_A_S = test_free lc\<rparr>"

subsection \<open>A small C library and concrete programs\<close>

text \<open>
  An instance of the C library's heap to run the macros on: a bump allocator over the
  addresses from \<open>brk\<close> up to \<open>limit\<close> that keeps the list of live regions (start and
  size).  \<open>malloc\<close> fails with a null pointer when the arena is exhausted; \<open>free\<close>
  and \<open>realloc\<close> of a null pointer do what the C standard says (nothing, and
  \<open>malloc\<close>), and of a pointer that is not live they are undefined; a failing
  \<open>realloc\<close> leaves the old region live.
\<close>

record 'a sys_heap =
  live :: "('a \<times> 'a) list"
  brk :: 'a
  limit :: 'a

definition sys_malloc :: "'w::len word \<Rightarrow> 'w word sys_heap \<Rightarrow> ('w word \<times> 'w word sys_heap) option" where
  "sys_malloc sz h =
     (if sz \<noteq> 0 \<and> unat (brk h) + unat sz \<le> unat (limit h)
      then Some (brk h, h\<lparr>live := (brk h, sz) # live h, brk := brk h + sz\<rparr>)
      else Some (NULL, h))"

definition sys_free :: "'w::len word \<Rightarrow> 'w word sys_heap \<Rightarrow> 'w word sys_heap option" where
  "sys_free p h =
     (if p = NULL then Some h
      else (case map_of (live h) p of
              None \<Rightarrow> None
            | Some sz \<Rightarrow> Some (h\<lparr>live := filter (\<lambda>r. fst r \<noteq> p) (live h)\<rparr>)))"

definition sys_realloc ::
    "'w::len word \<Rightarrow> 'w word \<Rightarrow> 'w word sys_heap \<Rightarrow> ('w word \<times> 'w word sys_heap) option" where
  "sys_realloc p sz h =
     (if p = NULL then sys_malloc sz h
      else (case map_of (live h) p of
              None \<Rightarrow> None
            | Some old \<Rightarrow>
                (case sys_malloc sz h of
                   None \<Rightarrow> None
                 | Some (q, h') \<Rightarrow>
                     if q = NULL then Some (NULL, h)
                     else Some (q, h'\<lparr>live := filter (\<lambda>r. fst r \<noteq> p) (live h')\<rparr>))))"

definition sys_libc :: "('w::len word, 'w word sys_heap) libc" where
  "sys_libc = \<lparr>malloc = sys_malloc, realloc = sys_realloc, free = sys_free\<rparr>"

text \<open>
  Three compilers on a 64-bit platform: Clang with \<open>-std=c2x\<close> (the Makefile's),
  a C99 compiler with neither \<open>typeof\<close> nor \<open>alignof\<close>, and MSVC compiling the
  header as C++23, which has \<open>typeof\<close> for the header but no \<open>__STDC_VERSION__\<close>.
\<close>

definition clang_c2x :: "64 word compiler" where
  "clang_c2x =
     \<lparr>STDC_VERSION = Some 202000, GNUC = True, clang = True, MSC_VER = False,
      MSVC_LANG = None, void_ptr = \<lparr>sizeof = 8, alignof = 8\<rparr>\<rparr>"

definition plain_c99 :: "64 word compiler" where
  "plain_c99 =
     \<lparr>STDC_VERSION = Some 199901, GNUC = False, clang = False, MSC_VER = False,
      MSVC_LANG = None, void_ptr = \<lparr>sizeof = 8, alignof = 8\<rparr>\<rparr>"

definition msvc_cxx23 :: "64 word compiler" where
  "msvc_cxx23 =
     \<lparr>STDC_VERSION = None, GNUC = False, clang = False, MSC_VER = True,
      MSVC_LANG = Some 202302, void_ptr = \<lparr>sizeof = 8, alignof = 8\<rparr>\<rparr>"

text \<open>
  The types of the tests: \<open>int\<close>, \<open>double\<close>, \<open>Point\<close>, and two more: \<open>char\<close> and
  \<open>struct { char c[3]; }\<close>.
\<close>

definition c_int :: "64 word ctype" where
  "c_int = \<lparr>sizeof = 4, alignof = 4\<rparr>"

definition c_double :: "64 word ctype" where
  "c_double = \<lparr>sizeof = 8, alignof = 8\<rparr>"


definition c_char :: "64 word ctype" where
  "c_char = \<lparr>sizeof = 1, alignof = 1\<rparr>"


text \<open>
  A program state: one pointer variable \<open>nums\<close> at address 64, holding \<open>NULL\<close>, and
  an arena of 4096 bytes from address 4096 on.
\<close>

definition arena0 :: "64 word sys_heap" where
  "arena0 = \<lparr>live = [], brk = 4096, limit = 8192\<rparr>"

definition prog0 :: "(64 word, 64 word sys_heap) state" where
  "prog0 = \<lparr>mem = [64 \<mapsto> NULL], heap = arena0, trace = []\<rparr>"

text \<open>
  The same variable after \<open>ppalloc(&nums, 5)\<close> for \<open>int* nums\<close> under the default
  backend.
\<close>

definition arena1 :: "64 word sys_heap" where
  "arena1 = \<lparr>live = [(4096, 20)], brk = 4116, limit = 8192\<rparr>"

definition prog1 :: "(64 word, 64 word sys_heap) state" where
  "prog1 = \<lparr>mem = [64 \<mapsto> 4096], heap = arena1, trace = [Call_alloc NULL 4 20]\<rparr>"

text \<open>
  The state of the test \<open>allocation_failure\<close>: \<open>test_allocator\<close>, at address 128,
  is reset and made to fail.
\<close>

definition failing_allocator :: "64 word TestAllocator" where
  "failing_allocator =
     \<lparr>alloc_count = 0, free_count = 0, total_allocated = 0, should_fail = True\<rparr>"

definition prog_fail :: "(64 word, 64 word TestAllocator \<times> 64 word sys_heap) state" where
  "prog_fail = \<lparr>mem = [64 \<mapsto> NULL], heap = (failing_allocator, arena0), trace = []\<rparr>"

section \<open>Properties\<close>

subsection \<open>Unfolding the macros\<close>

lemmas deriver_defs =
  tgalloc_alignof_def tgalloc_alignof_impl_def tgalloc_typeof_def tgalloc_sizeof_n_def
  tgalloc_sizeof_def

lemmas dispatch_defs =
  palloc_def pfree_def ppalloc_def tgalloc_palloc_choose_c99_def tgalloc_palloc_choose_c23_def
  tgalloc_pfree_choose_c99_def tgalloc_pfree_choose_c23_def

lemmas helper_defs =
  tgalloc_palloc1_def tgalloc_palloc2_def tgalloc_pfree1_def tgalloc_pfree2_def
  tgalloc_realloc2_def call_alloc_def call_realloc_def call_free_def assign_def rvalue_def
  deref_def

lemmas dflt_defs =
  dflt_binding_def tgalloc_dflt_alloc_aligned_sized_def tgalloc_dflt_realloc_aligned_sized_def
  tgalloc_dflt_free_aligned_sized_def

lemmas sys_defs = sys_libc_def sys_malloc_def sys_realloc_def sys_free_def

lemma palloc_none: "palloc cc b T ptr [] st = tgalloc_palloc1 cc b T ptr st"
  by (simp add: dispatch_defs)

lemma palloc_one: "palloc cc b T ptr [n] st = tgalloc_palloc2 cc b T ptr n st"
  by (simp add: dispatch_defs)

lemma pfree_none: "pfree cc b T p [] st = tgalloc_pfree1 cc b T p st"
  by (simp add: dispatch_defs)

lemma pfree_one: "pfree cc b T p [n] st = tgalloc_pfree2 cc b T p n st"
  by (simp add: dispatch_defs)

lemma palloc_many: "palloc cc b T ptr (n # m # va) st = Inl Ill_formed"
  by (simp add: dispatch_defs)

lemma palloc1_returns:
  assumes "mem st (address ptr) = Some old"
    and "TGA_ALLOC_A_S b (TGA b) (tgalloc_alignof cc T) (sizeof T) (heap st) = Some (p, h)"
  shows "tgalloc_palloc1 cc b T ptr st =
           Inr (p, st\<lparr>mem := (mem st)(address ptr \<mapsto> p), heap := h,
                  trace := trace st @ [Call_alloc (TGA b) (tgalloc_alignof cc T) (sizeof T)]\<rparr>)"
  using assms by (simp add: helper_defs tgalloc_sizeof_def)

lemma palloc2_returns:
  assumes "mem st (address ptr) = Some old"
    and "TGA_ALLOC_A_S b (TGA b) (tgalloc_alignof cc T) (sizeof T * n) (heap st) = Some (p, h)"
  shows "tgalloc_palloc2 cc b T ptr n st =
           Inr (p, st\<lparr>mem := (mem st)(address ptr \<mapsto> p), heap := h,
                  trace := trace st @ [Call_alloc (TGA b) (tgalloc_alignof cc T) (sizeof T * n)]\<rparr>)"
  using assms by (simp add: helper_defs tgalloc_sizeof_def tgalloc_sizeof_n_def)

lemma pfree2_returns:
  assumes "TGA_FREE_A_S b (TGA b) p (tgalloc_alignof cc T) (sizeof T * n) (heap st) = Some h"
  shows "tgalloc_pfree2 cc b T p n st =
           Inr (st\<lparr>heap := h,
                  trace := trace st @ [Call_free (TGA b) p (tgalloc_alignof cc T) (sizeof T * n)]\<rparr>)"
  using assms by (simp add: helper_defs tgalloc_sizeof_def tgalloc_sizeof_n_def)

lemma pfree1_returns:
  assumes "TGA_FREE_A_S b (TGA b) p (tgalloc_alignof cc T) (sizeof T) (heap st) = Some h"
  shows "tgalloc_pfree1 cc b T p st =
           Inr (st\<lparr>heap := h,
                  trace := trace st @ [Call_free (TGA b) p (tgalloc_alignof cc T) (sizeof T)]\<rparr>)"
  using assms by (simp add: helper_defs tgalloc_sizeof_def tgalloc_sizeof_n_def)

subsection \<open>Allocation failure\<close>

text \<open>
  Claim C1.  When the active backend's allocate function returns the null pointer,
  \<open>palloc(ptr)\<close> and \<open>palloc(ptr, n)\<close> store the null pointer in the caller's
  \<open>ptr\<close>, and the value of the call is that null pointer.  Nothing else happens:
  the state afterwards is the state before with the null pointer in \<open>ptr\<close>, with
  the allocator's state as the backend left it, and with the one call of the backend.
  \<open>ppalloc\<close> on the address of \<open>ptr\<close> is the same call.
\<close>
theorem palloc_null_propagates:
  assumes obj: "mem st (address ptr) = Some old"
  shows "(TGA_ALLOC_A_S b (TGA b) (tgalloc_alignof cc T) (sizeof T) (heap st) = Some (NULL, h) \<longrightarrow>
            palloc cc b T ptr [] st =
              Inr (NULL, st\<lparr>mem := (mem st)(address ptr \<mapsto> NULL), heap := h,
                     trace := trace st @ [Call_alloc (TGA b) (tgalloc_alignof cc T) (sizeof T)]\<rparr>))
       \<and> (TGA_ALLOC_A_S b (TGA b) (tgalloc_alignof cc T) (sizeof T * n) (heap st) = Some (NULL, h) \<longrightarrow>
            palloc cc b T ptr [n] st =
              Inr (NULL, st\<lparr>mem := (mem st)(address ptr \<mapsto> NULL), heap := h,
                     trace := trace st @ [Call_alloc (TGA b) (tgalloc_alignof cc T) (sizeof T * n)]\<rparr>))
       \<and> ppalloc cc b T (address ptr) [] st = palloc cc b T ptr [] st
       \<and> ppalloc cc b T (address ptr) [n] st = palloc cc b T ptr [n] st"
proof -
  have "deref (address ptr) = ptr"
    by (cases ptr) (simp add: deref_def)
  then show ?thesis
    using obj by (simp add: palloc_none palloc_one palloc1_returns palloc2_returns ppalloc_def)
qed

theorem palloc_null_propagates_witness:
  "mem prog_fail (address (Object_at 64)) = Some NULL
   \<and> TGA_ALLOC_A_S (test_binding sys_libc 128) (TGA (test_binding sys_libc 128))
       (tgalloc_alignof clang_c2x c_int) (sizeof c_int) (heap prog_fail)
       = Some (NULL, heap prog_fail)
   \<and> TGA_ALLOC_A_S (test_binding sys_libc 128) (TGA (test_binding sys_libc 128))
       (tgalloc_alignof clang_c2x c_int) (sizeof c_int * 10) (heap prog_fail)
       = Some (NULL, heap prog_fail)
   \<and> palloc clang_c2x (test_binding sys_libc 128) c_int (Object_at 64) [] prog_fail
       = Inr (NULL, prog_fail\<lparr>trace := [Call_alloc 128 4 4]\<rparr>)
   \<and> ppalloc clang_c2x (test_binding sys_libc 128) c_int 64 [10] prog_fail
       = Inr (NULL, prog_fail\<lparr>trace := [Call_alloc 128 4 40]\<rparr>)"
proof -
  have obj: "mem prog_fail (address (Object_at 64)) = Some NULL"
    by (simp add: prog_fail_def)
  have fail1: "TGA_ALLOC_A_S (test_binding sys_libc 128) (TGA (test_binding sys_libc 128))
       (tgalloc_alignof clang_c2x c_int) (sizeof c_int) (heap prog_fail)
       = Some (NULL, heap prog_fail)"
    by (simp add: test_binding_def test_alloc_def prog_fail_def failing_allocator_def)
  have failn: "TGA_ALLOC_A_S (test_binding sys_libc 128) (TGA (test_binding sys_libc 128))
       (tgalloc_alignof clang_c2x c_int) (sizeof c_int * 10) (heap prog_fail)
       = Some (NULL, heap prog_fail)"
    by (simp add: test_binding_def test_alloc_def prog_fail_def failing_allocator_def)
  have al: "tgalloc_alignof clang_c2x c_int = 4" "sizeof c_int = 4"
    by (simp_all add: deriver_defs clang_c2x_def c_int_def defined_at_least_def)
  have same: "prog_fail\<lparr>mem := (mem prog_fail)(64 \<mapsto> NULL)\<rparr> = prog_fail"
    by (simp add: prog_fail_def)
  from palloc_null_propagates [OF obj, of "test_binding sys_libc 128" clang_c2x c_int
      "heap prog_fail" 10] fail1 failn
  show ?thesis
    using obj same al by (simp add: test_binding_def prog_fail_def)
qed

subsection \<open>What allocate-array passes to the backend\<close>








subsection \<open>Reallocation through a pointer to pointer\<close>

lemma pprealloc_returns:
  assumes obj: "mem st pptr = Some p"
    and ret: "TGA_REALLOC_A_S b (TGA b) p (tgalloc_alignof cc T) (sizeof T * old_count)
                (sizeof T * new_count) (heap st) = Some (q, h)"
  shows "pprealloc cc b T pptr old_count new_count st =
           Inr (q, st\<lparr>mem := (mem st)(pptr \<mapsto> q), heap := h,
                  trace := trace st @ [Call_realloc (TGA b) p (tgalloc_alignof cc T)
                                         (sizeof T * old_count) (sizeof T * new_count)]\<rparr>)"
  using assms
  by (simp add: pprealloc_def helper_defs tgalloc_sizeof_def tgalloc_sizeof_n_def)

text \<open>
  Claim C3.  \<open>pprealloc(pptr, old_count, new_count)\<close> reads the pointer \<open>p\<close> in
  the slot \<open>*pptr\<close>, calls the backend's reallocate once, with \<open>p\<close>, the old size
  \<open>sizeof(T) * old_count\<close> and the new size \<open>sizeof(T) * new_count\<close> for the type
  \<open>T\<close> of \<open>**pptr\<close>, and stores the pointer the backend returns in the slot; the
  value of the call is that pointer.
\<close>

theorem pprealloc_call:
  assumes obj: "mem st pptr = Some p"
    and ret: "TGA_REALLOC_A_S b (TGA b) p (tgalloc_alignof cc T) (sizeof T * old_count)
                (sizeof T * new_count) (heap st) = Some (q, h)"
  shows "pprealloc cc b T pptr old_count new_count st =
           Inr (q, st\<lparr>mem := (mem st)(pptr \<mapsto> q), heap := h,
                  trace := trace st @ [Call_realloc (TGA b) p (tgalloc_alignof cc T)
                                         (sizeof T * old_count) (sizeof T * new_count)]\<rparr>)
       \<and> tgalloc_sizeof_n T old_count = sizeof T * old_count
       \<and> tgalloc_sizeof_n T new_count = sizeof T * new_count"
  using pprealloc_returns [OF obj ret] by (simp add: tgalloc_sizeof_n_def tgalloc_sizeof_def)

theorem pprealloc_call_witness:
  "mem prog1 64 = Some 4096
   \<and> TGA_REALLOC_A_S (dflt_binding sys_libc) (TGA (dflt_binding sys_libc)) 4096
       (tgalloc_alignof clang_c2x c_int) (sizeof c_int * 5) (sizeof c_int * 10) (heap prog1)
       = Some (4116, \<lparr>live = [(4116, 40)], brk = 4156, limit = 8192\<rparr>)
   \<and> pprealloc clang_c2x (dflt_binding sys_libc) c_int 64 5 10 prog1 =
       Inr (4116, \<lparr>mem = [64 \<mapsto> 4116], heap = \<lparr>live = [(4116, 40)], brk = 4156, limit = 8192\<rparr>,
                   trace = [Call_alloc NULL 4 20, Call_realloc NULL 4096 4 20 40]\<rparr>)"
proof -
  have obj: "mem prog1 64 = Some 4096"
    by (simp add: prog1_def)
  have ret: "TGA_REALLOC_A_S (dflt_binding sys_libc) (TGA (dflt_binding sys_libc)) 4096
       (tgalloc_alignof clang_c2x c_int) (sizeof c_int * 5) (sizeof c_int * 10) (heap prog1)
       = Some (4116, \<lparr>live = [(4116, 40)], brk = 4156, limit = 8192\<rparr>)"
    by (simp add: dflt_defs sys_defs prog1_def arena1_def c_int_def NULL_def)
  have al: "tgalloc_alignof clang_c2x c_int = 4" "sizeof c_int = 4"
    by (simp_all add: deriver_defs clang_c2x_def c_int_def defined_at_least_def)
  from pprealloc_call [OF obj ret]
  show ?thesis
    using obj ret al by (simp add: dflt_binding_def prog1_def)
qed

text \<open>
  Claim C4.  When the backend's reallocate returns the null pointer, \<open>pprealloc\<close>
  stores that null pointer in the slot \<open>*pptr\<close>, which held a pointer \<open>p\<close> that is
  not null: the slot has lost \<open>p\<close>.  This is so whatever the backend did to the
  region, and in particular under the default backend when \<open>realloc\<close> fails and
  leaves the heap, with the region of \<open>p\<close>, as it was.
\<close>

theorem pprealloc_failure_overwrites:
  assumes obj: "mem st pptr = Some p"
    and live: "p \<noteq> NULL"
  shows "(TGA_REALLOC_A_S b (TGA b) p (tgalloc_alignof cc T) (sizeof T * old_count)
            (sizeof T * new_count) (heap st) = Some (NULL, h) \<longrightarrow>
          pprealloc cc b T pptr old_count new_count st =
            Inr (NULL, st\<lparr>mem := (mem st)(pptr \<mapsto> NULL), heap := h,
                   trace := trace st @ [Call_realloc (TGA b) p (tgalloc_alignof cc T)
                                          (sizeof T * old_count) (sizeof T * new_count)]\<rparr>))
       \<and> (realloc lc p (sizeof T * new_count) (heap st) = Some (NULL, heap st) \<longrightarrow>
          pprealloc cc (dflt_binding lc) T pptr old_count new_count st =
            Inr (NULL, st\<lparr>mem := (mem st)(pptr \<mapsto> NULL),
                   trace := trace st @ [Call_realloc NULL p (tgalloc_alignof cc T)
                                          (sizeof T * old_count) (sizeof T * new_count)]\<rparr>))
       \<and> ((mem st)(pptr \<mapsto> NULL)) pptr \<noteq> mem st pptr"
proof -
  have "realloc lc p (sizeof T * new_count) (heap st) = Some (NULL, heap st) \<Longrightarrow>
      TGA_REALLOC_A_S (dflt_binding lc) (TGA (dflt_binding lc)) p (tgalloc_alignof cc T)
        (sizeof T * old_count) (sizeof T * new_count) (heap st) = Some (NULL, heap st)"
    by (simp add: dflt_defs)
  then show ?thesis
    using obj live
    by (auto simp add: pprealloc_returns) (simp add: dflt_binding_def)
qed

theorem pprealloc_failure_overwrites_witness:
  "mem prog1 64 = Some 4096 \<and> (4096 :: 64 word) \<noteq> NULL
   \<and> realloc sys_libc 4096 (sizeof c_int * 2000) (heap prog1) = Some (NULL, heap prog1)
   \<and> pprealloc clang_c2x (dflt_binding sys_libc) c_int 64 5 2000 prog1 =
       Inr (NULL, \<lparr>mem = [64 \<mapsto> NULL], heap = arena1,
                   trace = [Call_alloc NULL 4 20, Call_realloc NULL 4096 4 20 8000]\<rparr>)
   \<and> map_of (live arena1) 4096 = Some 20"
proof -
  have obj: "mem prog1 64 = Some 4096"
    by (simp add: prog1_def)
  have live: "(4096 :: 64 word) \<noteq> NULL"
    by (simp add: NULL_def)
  have fail: "realloc sys_libc 4096 (sizeof c_int * 2000) (heap prog1) = Some (NULL, heap prog1)"
    by (simp add: sys_defs prog1_def arena1_def c_int_def NULL_def)
  have al: "tgalloc_alignof clang_c2x c_int = 4" "sizeof c_int = 4"
    by (simp_all add: deriver_defs clang_c2x_def c_int_def defined_at_least_def)
  from pprealloc_failure_overwrites [OF obj live, of "dflt_binding sys_libc" clang_c2x c_int 5 2000
      "heap prog1" sys_libc] fail
  show ?thesis
    using obj live al by (simp add: prog1_def arena1_def)
qed

subsection \<open>The alignment fallback\<close>

text \<open>
  With neither \<open>typeof\<close> nor \<open>alignof\<close> the alignment derived for any pointee is
  \<open>sizeof(void*)\<close>: \<open>_tgalloc_typeof(*(ptr))\<close> is \<open>void*\<close>, whatever the pointee,
  and the fallback of \<open>_tgalloc_alignof_impl\<close> is applied to that type.
\<close>

lemma alignof_without_typeof_and_alignof:
  assumes "\<not> defined_at_least (STDC_VERSION cc) 201112" "\<not> GNUC cc" "\<not> clang cc" "\<not> MSC_VER cc"
  shows "tgalloc_alignof cc T = sizeof (void_ptr cc)"
proof -
  have "\<not> defined_at_least (STDC_VERSION cc) 202000"
    using assms(1) by (simp add: defined_at_least_def split: option.splits)
  with assms show ?thesis
    by (simp add: tgalloc_alignof_def tgalloc_alignof_impl_def tgalloc_typeof_def)
qed

text \<open>
  Claim C5 says that, where the compiler cannot determine a type's alignment, the
  alignment derived for a pointee type \<open>T\<close> is the smaller of \<open>sizeof(T)\<close> and
  \<open>sizeof(void*)\<close>, so never more than the size of \<open>T\<close>.  The header does so where
  it has a \<open>typeof\<close> (MSVC as C++23: alignment 1 for \<open>char\<close>).  On a C99 compiler
  with neither \<open>alignof\<close> nor \<open>typeof\<close> it does not: the alignment derived for a
  \<open>char\<close>, of size 1, is 8, the size of a pointer, and \<open>palloc(ptr)\<close> for a
  \<open>char* ptr\<close> passes that 8 to the backend.
\<close>

theorem alignof_fallback_without_typeof:
  "\<not> defined_at_least (STDC_VERSION plain_c99) 201112 \<and> \<not> GNUC plain_c99 \<and> \<not> clang plain_c99
   \<and> sizeof c_char = 1
   \<and> min (unat (sizeof c_char)) (unat (sizeof (void_ptr plain_c99))) = 1
   \<and> tgalloc_alignof plain_c99 c_char = 8
   \<and> palloc plain_c99 (dflt_binding sys_libc) c_char (Object_at 64) [] prog0
       = Inr (4096, \<lparr>mem = [64 \<mapsto> 4096],
                     heap = \<lparr>live = [(4096, 1)], brk = 4097, limit = 8192\<rparr>,
                     trace = [Call_alloc NULL 8 1]\<rparr>)
   \<and> tgalloc_alignof msvc_cxx23 c_char = 1"
  by (simp add: palloc_none helper_defs deriver_defs dflt_defs sys_defs prog0_def
      arena0_def plain_c99_def msvc_cxx23_def c_char_def defined_at_least_def NULL_def)

subsection \<open>Arity dispatch and indirection\<close>

text \<open>
  Claim C6.  In both dialects of the header \<open>palloc(ptr)\<close> resolves to the
  single-object helper and \<open>palloc(ptr, 1)\<close> to the array helper, and the two calls
  are the same computation for every backend and state: the array size is
  \<open>sizeof(T) * 1\<close>, which is \<open>sizeof(T)\<close>, and the alignment is the same
  expression.  The same holds of \<open>pfree(ptr)\<close> and \<open>pfree(ptr, 1)\<close>.
\<close>

theorem palloc_count_one:
  "palloc cc b T ptr [1] st = palloc cc b T ptr [] st
   \<and> pfree cc b T p [1] st = pfree cc b T p [] st
   \<and> palloc cc b T ptr [] st = tgalloc_palloc1 cc b T ptr st
   \<and> palloc cc b T ptr [1] st = tgalloc_palloc2 cc b T ptr 1 st
   \<and> pfree cc b T p [] st = tgalloc_pfree1 cc b T p st
   \<and> pfree cc b T p [1] st = tgalloc_pfree2 cc b T p 1 st
   \<and> tgalloc_sizeof_n T 1 = sizeof T
   \<and> tgalloc_sizeof T = sizeof T"
  by (simp add: palloc_none palloc_one pfree_none pfree_one tgalloc_palloc1_def
      tgalloc_palloc2_def tgalloc_pfree1_def tgalloc_pfree2_def tgalloc_sizeof_n_def
      tgalloc_sizeof_def)

text \<open>
  Claim C7.  \<open>ppalloc(pptr, ...)\<close> is \<open>palloc\<close> applied to the lvalue \<open>*(pptr)\<close>,
  the object at the address \<open>pptr\<close>, with the same further arguments: the same
  backend call is made and the same value is left in that object.  Without a count it
  is the single-object helper on that object, with one count the array helper.
\<close>

theorem ppalloc_is_palloc_deref:
  "ppalloc cc b T pptr va st = palloc cc b T (deref pptr) va st
   \<and> address (deref pptr) = pptr
   \<and> ppalloc cc b T pptr [] st = tgalloc_palloc1 cc b T (Object_at pptr) st
   \<and> ppalloc cc b T pptr [n] st = tgalloc_palloc2 cc b T (Object_at pptr) n st"
  by (simp add: ppalloc_def deref_def palloc_none palloc_one)

subsection \<open>The default backend\<close>

text \<open>
  Claim C9.  The default backend's allocate returns what \<open>malloc(size)\<close> returns,
  in the same heap: the instance handle and the alignment have no effect on the
  result.
\<close>

theorem dflt_alloc_is_malloc:
  "tgalloc_dflt_alloc_aligned_sized lc h a s hp = malloc lc s hp
   \<and> TGA_ALLOC_A_S (dflt_binding lc) h a s hp = malloc lc s hp
   \<and> TGA_ALLOC_A_S (dflt_binding lc) h a s hp = TGA_ALLOC_A_S (dflt_binding lc) h' a' s hp"
  by (simp add: dflt_defs)

text \<open>
  Claim C8.  Under the default backend, and with a C library whose \<open>free\<close> does
  nothing on a null pointer (as the C standard requires), \<open>pfree(ptr)\<close> and
  \<open>pfree(ptr, n)\<close> on a null pointer \<open>ptr\<close> return normally for every count \<open>n\<close>
  and leave the heap and the caller's objects as they were: the state afterwards
  differs from the state before only by the record of the one call of the backend's
  free, which received the null pointer.
\<close>

theorem pfree_null_noop:
  assumes std: "free lc NULL (heap st) = Some (heap st)"
  shows "pfree cc (dflt_binding lc) T NULL [] st =
           Inr (st\<lparr>trace := trace st @ [Call_free NULL NULL (tgalloc_alignof cc T) (sizeof T)]\<rparr>)
       \<and> pfree cc (dflt_binding lc) T NULL [n] st =
           Inr (st\<lparr>trace := trace st @ [Call_free NULL NULL (tgalloc_alignof cc T) (sizeof T * n)]\<rparr>)"
proof -
  have "TGA_FREE_A_S (dflt_binding lc) (TGA (dflt_binding lc)) NULL a s (heap st) = Some (heap st)"
    for a s
    using std by (simp add: dflt_defs)
  then show ?thesis
    by (simp add: pfree_none pfree_one pfree1_returns pfree2_returns) (simp add: dflt_binding_def)
qed

theorem pfree_null_noop_witness:
  "free sys_libc NULL (heap prog1) = Some (heap prog1)
   \<and> pfree clang_c2x (dflt_binding sys_libc) c_int NULL [] prog1 =
       Inr (prog1\<lparr>trace := [Call_alloc NULL 4 20, Call_free NULL NULL 4 4]\<rparr>)
   \<and> pfree clang_c2x (dflt_binding sys_libc) c_int NULL [7] prog1 =
       Inr (prog1\<lparr>trace := [Call_alloc NULL 4 20, Call_free NULL NULL 4 28]\<rparr>)"
proof -
  have std: "free sys_libc NULL (heap prog1) = Some (heap prog1)"
    by (simp add: sys_defs)
  have al: "tgalloc_alignof clang_c2x c_int = 4" "sizeof c_int = 4"
    by (simp_all add: deriver_defs clang_c2x_def c_int_def defined_at_least_def)
  from pfree_null_noop [OF std, of clang_c2x c_int 7]
  show ?thesis
    using std al by (simp add: prog1_def)
qed

subsection \<open>Counts are not validated\<close>

text \<open>
  Claim C10.  \<open>palloc(ptr, n)\<close> and \<open>pfree(ptr, n)\<close> hand \<open>sizeof(T) * n\<close> to the
  backend for every count \<open>n\<close>, whatever its size, and report nothing themselves: the
  outcome is the backend's.  The product is taken in \<open>size_t\<close> arithmetic, that is
  modulo \<open>2 ^ w\<close>, and a negative count \<open>k\<close> enters it as \<open>k\<close> modulo \<open>2 ^ w\<close>.
\<close>

theorem count_not_validated:
  fixes T :: "'w::len word ctype"
  assumes obj: "mem st (address ptr) = Some old"
    and ret: "TGA_ALLOC_A_S b (TGA b) (tgalloc_alignof cc T) (sizeof T * n) (heap st) = Some (p, h)"
    and fre: "TGA_FREE_A_S b (TGA b) q (tgalloc_alignof cc T) (sizeof T * n) (heap st) = Some h'"
  shows "palloc cc b T ptr [n] st =
           Inr (p, st\<lparr>mem := (mem st)(address ptr \<mapsto> p), heap := h,
                  trace := trace st @ [Call_alloc (TGA b) (tgalloc_alignof cc T) (sizeof T * n)]\<rparr>)
       \<and> pfree cc b T q [n] st =
           Inr (st\<lparr>heap := h',
                  trace := trace st @ [Call_free (TGA b) q (tgalloc_alignof cc T) (sizeof T * n)]\<rparr>)
       \<and> tgalloc_sizeof_n T n = sizeof T * n
       \<and> unat (sizeof T * n) = (unat (sizeof T) * unat n) mod 2 ^ LENGTH('w)
       \<and> uint (sizeof T * size_t_of_int k :: 'w word) = (uint (sizeof T) * k) mod 2 ^ LENGTH('w)"
proof -
  have "uint (sizeof T * size_t_of_int k :: 'w word) = (uint (sizeof T) * k) mod 2 ^ LENGTH('w)"
    by (simp add: size_t_of_int_def uint_word_ariths uint_word_of_int mod_mult_right_eq)
  then show ?thesis
    using palloc2_returns [OF obj ret] pfree2_returns [OF fre]
    by (simp add: palloc_one pfree_one tgalloc_sizeof_n_def tgalloc_sizeof_def unat_word_ariths)
qed

theorem count_not_validated_witness:
  "mem prog0 (address (Object_at 64)) = Some NULL
   \<and> TGA_ALLOC_A_S (dflt_binding sys_libc) (TGA (dflt_binding sys_libc))
       (tgalloc_alignof clang_c2x c_int) (sizeof c_int * 4611686018427387909) (heap prog0)
       = Some (4096, arena1)
   \<and> TGA_FREE_A_S (dflt_binding sys_libc) (TGA (dflt_binding sys_libc)) NULL
       (tgalloc_alignof clang_c2x c_int) (sizeof c_int * 4611686018427387909) (heap prog0)
       = Some arena0
   \<and> unat (sizeof c_int) * unat (4611686018427387909 :: 64 word) = 2 ^ 64 + 20
   \<and> palloc clang_c2x (dflt_binding sys_libc) c_int (Object_at 64) [4611686018427387909] prog0
       = Inr (4096, prog1)
   \<and> pfree clang_c2x (dflt_binding sys_libc) c_int NULL [4611686018427387909] prog0
       = Inr (prog0\<lparr>trace := [Call_free NULL NULL 4 20]\<rparr>)
   \<and> sizeof c_int * size_t_of_int (- 1) = (18446744073709551612 :: 64 word)"
proof -
  have obj: "mem prog0 (address (Object_at 64)) = Some NULL"
    by (simp add: prog0_def)
  have sz: "sizeof c_int * 4611686018427387909 = (20 :: 64 word)"
    by (simp add: c_int_def)
  have ret: "TGA_ALLOC_A_S (dflt_binding sys_libc) (TGA (dflt_binding sys_libc))
       (tgalloc_alignof clang_c2x c_int) (sizeof c_int * 4611686018427387909) (heap prog0)
       = Some (4096, arena1)"
    unfolding sz by (simp add: dflt_defs sys_defs prog0_def arena0_def arena1_def)
  have fre: "TGA_FREE_A_S (dflt_binding sys_libc) (TGA (dflt_binding sys_libc)) NULL
       (tgalloc_alignof clang_c2x c_int) (sizeof c_int * 4611686018427387909) (heap prog0)
       = Some arena0"
    by (simp add: dflt_defs sys_defs prog0_def)
  have al: "tgalloc_alignof clang_c2x c_int = 4"
    by (simp add: deriver_defs clang_c2x_def c_int_def defined_at_least_def)
  have big: "unat (sizeof c_int) * unat (4611686018427387909 :: 64 word) = 2 ^ 64 + 20"
    by (simp add: c_int_def)
  have neg: "sizeof c_int * size_t_of_int (- 1) = (18446744073709551612 :: 64 word)"
    by (simp add: c_int_def size_t_of_int_def)
  have upd: "prog0\<lparr>mem := (mem prog0)(64 \<mapsto> 4096), heap := arena1,
      trace := trace prog0 @ [Call_alloc NULL 4 20]\<rparr> = prog1"
    by (simp add: prog0_def prog1_def)
  have upd2: "prog0\<lparr>heap := arena0\<rparr> = prog0"
    by (simp add: prog0_def)
  from count_not_validated [OF obj ret fre, of "- 1"]
  show ?thesis
    using obj ret fre al big neg upd upd2 sz by (simp add: dflt_binding_def prog0_def)
qed

end
